theory Spec2Isabelle
  imports Main "HOL-Library.Sublist"
begin

section \<open>The workflow state table\<close>

text \<open>
  The workflow service of \<^verbatim>\<open>docs/ARCHITECTURE.md\<close> (section 8) keeps its state machine
  in the object literal \<^verbatim>\<open>workflowStates\<close>: one entry per state, keyed by the state's
  identifier, with a display name, the identifiers reachable from the state and the
  document types needed to enter it.
\<close>

record workflow_state =
  name :: string
  allowedTransitions :: "string list"
  requiredDocuments :: "string list"

text \<open>The entries of the literal, in the order they are written.\<close>

definition workflowStates_entries :: "(string \<times> workflow_state) list" where
  "workflowStates_entries =
    [(''draft'',
        \<lparr>name = ''Draft'',
         allowedTransitions = [''in-progress''],
         requiredDocuments = []\<rparr>),
     (''in-progress'',
        \<lparr>name = ''In Progress'',
         allowedTransitions = [''submitted'', ''draft''],
         requiredDocuments = [''project-design-document'']\<rparr>),
     (''submitted'',
        \<lparr>name = ''Submitted for Validation'',
         allowedTransitions = [''in-progress'', ''validated''],
         requiredDocuments = [''project-design-document'', ''supporting-documentation'']\<rparr>),
     (''validated'',
        \<lparr>name = ''Validated'',
         allowedTransitions = [''registered''],
         requiredDocuments = [''validation-report'']\<rparr>),
     (''registered'',
        \<lparr>name = ''Registered'',
         allowedTransitions = [''monitoring''],
         requiredDocuments = [''registration-proof'']\<rparr>),
     (''monitoring'',
        \<lparr>name = ''Monitoring'',
         allowedTransitions = [''verification''],
         requiredDocuments = [''monitoring-report'']\<rparr>),
     (''verification'',
        \<lparr>name = ''Under Verification'',
         allowedTransitions = [''verified'', ''monitoring''],
         requiredDocuments = [''verification-report'']\<rparr>),
     (''verified'',
        \<lparr>name = ''Verified'',
         allowedTransitions = [''issuance'', ''monitoring''],
         requiredDocuments = [''verification-statement'']\<rparr>),
     (''issuance'',
        \<lparr>name = ''Issuance Requested'',
         allowedTransitions = [''issued'', ''verified''],
         requiredDocuments = [''issuance-request'']\<rparr>),
     (''issued'',
        \<lparr>name = ''Credits Issued'',
         allowedTransitions = [''monitoring''],
         requiredDocuments = [''issuance-confirmation'']\<rparr>)]"

text \<open>
  Property access \<^verbatim>\<open>workflowStates[key]\<close>: the entry stored under the key, or
  \<^verbatim>\<open>undefined\<close> (here \<open>None\<close>) when the literal has no such key. A key that only
  the prototype answers (\<^verbatim>\<open>'constructor'\<close>, \<^verbatim>\<open>'toString'\<close>) yields a value with no
  \<^verbatim>\<open>allowedTransitions\<close> field, on which the handler fails exactly as it does on
  \<^verbatim>\<open>undefined\<close>, so \<open>None\<close> stands for both.
\<close>

definition workflowStates :: "string \<Rightarrow> workflow_state option" where
  "workflowStates = map_of workflowStates_entries"

section \<open>Projects, requests and responses\<close>

record document =
  documentType :: string

text \<open>An element of \<^verbatim>\<open>project.statusHistory\<close>; the time stamp is a \<^verbatim>\<open>Date\<close>, counted in
  milliseconds.\<close>

record status_change =
  entry_status :: string
  timestamp :: int
  updatedBy :: string
  comment :: string

record project =
  status :: string
  statusHistory :: "status_change list"
  documents :: "document list"
  owner :: string

text \<open>What the handler reads of the request: \<^verbatim>\<open>req.params.projectId\<close>,
  \<^verbatim>\<open>req.body.newStatus\<close>, \<^verbatim>\<open>req.body.comment\<close> and \<^verbatim>\<open>req.user.id\<close>.\<close>

record request =
  params_projectId :: string
  body_newStatus :: string
  body_comment :: string
  user_id :: string

text \<open>The argument of \<^verbatim>\<open>createNotification\<close>.\<close>

record notification =
  ntype :: string
  projectId :: string
  userId :: string
  message :: string
  data_newStatus :: string
  data_previousStatus :: string

text \<open>The JSON bodies the handler sends, and a response as status code and body.\<close>

datatype json_body =
    Message string
  | MissingDocuments string "string list"
  | StatusResult string "status_change list"

datatype response = Response nat json_body

text \<open>What can be thrown inside the handler's \<^verbatim>\<open>try\<close> block: the \<^verbatim>\<open>TypeError\<close> of reading
  a field of \<^verbatim>\<open>undefined\<close>, and the rejections of the two awaited collaborators.\<close>

datatype exn = TypeError | SaveRejected | NotificationRejected

text \<open>
  The collaborators are not part of the repository. The persistence layer is a map from
  project identifiers to stored projects (\<^verbatim>\<open>Project.findById\<close> reads it,
  \<^verbatim>\<open>project.save()\<close> writes the entry back), and the notification sink is the list of
  arguments \<^verbatim>\<open>createNotification\<close> has been called with. The clock read by
  \<^verbatim>\<open>new Date()\<close> and whether each of the two awaited calls resolves are parameters of
  a run.
\<close>

record world =
  stored :: "string \<rightharpoonup> project"
  notifications :: "notification list"

record env =
  now :: int
  save_resolves :: bool
  createNotification_resolves :: bool

section \<open>The transition handler\<close>

text \<open>
  The loop that gathers the missing documents:
  \<^verbatim>\<open>for (const requiredDoc of targetState.requiredDocuments) {
    const hasDocument = project.documents.some(doc => doc.documentType === requiredDoc);
    if (!hasDocument) { missingDocuments.push(requiredDoc); } }\<close>
\<close>

fun collect_missing :: "document list \<Rightarrow> string list \<Rightarrow> string list \<Rightarrow> string list" where
  "collect_missing docs [] missingDocuments = missingDocuments"
| "collect_missing docs (requiredDoc # rest) missingDocuments =
     (let hasDocument = list_ex (\<lambda>doc. documentType doc = requiredDoc) docs
      in collect_missing docs rest
           (if \<not> hasDocument then missingDocuments @ [requiredDoc] else missingDocuments))"

text \<open>
  The update of the in-memory project:
  \<^verbatim>\<open>project.status = newStatus;
  project.statusHistory.push({ status: newStatus, timestamp: new Date(),
                               updatedBy: req.user.id, comment });\<close>
\<close>

definition status_record :: "env \<Rightarrow> request \<Rightarrow> status_change" where
  "status_record e req =
     \<lparr>entry_status = body_newStatus req,
      timestamp = now e,
      updatedBy = user_id req,
      comment = body_comment req\<rparr>"

definition update_status :: "env \<Rightarrow> request \<Rightarrow> project \<Rightarrow> project" where
  "update_status e req project =
     project\<lparr>status := body_newStatus req,
             statusHistory := statusHistory project @ [status_record e req]\<rparr>"

text \<open>
  The argument of the call of \<^verbatim>\<open>createNotification\<close>:
  \<^verbatim>\<open>{ type: 'status-change', projectId, userId: project.owner,
    message: `Project status changed to ${workflowStates[newStatus].name}`,
    data: { newStatus, previousStatus: currentState.name } }\<close>
  where \<^verbatim>\<open>workflowStates[newStatus]\<close> is the entry already bound to \<^verbatim>\<open>targetState\<close>.
\<close>

definition status_notification ::
  "request \<Rightarrow> project \<Rightarrow> workflow_state \<Rightarrow> workflow_state \<Rightarrow> notification" where
  "status_notification req project currentState targetState =
     \<lparr>ntype = ''status-change'',
      projectId = params_projectId req,
      userId = owner project,
      message = ''Project status changed to '' @ name targetState,
      data_newStatus = body_newStatus req,
      data_previousStatus = name currentState\<rparr>"

text \<open>
  The body of the \<^verbatim>\<open>try\<close> block of \<^verbatim>\<open>transitionProjectStatus\<close>. It yields the response
  sent, or what was thrown, together with the world it leaves. The in-memory project is
  local to the call, so its mutation reaches the world only through \<^verbatim>\<open>save\<close>; a call
  of \<^verbatim>\<open>createNotification\<close> is recorded whether or not it resolves.
\<close>

definition transition_body :: "env \<Rightarrow> request \<Rightarrow> world \<Rightarrow> (exn + response) \<times> world" where
  "transition_body e req w =
    (case stored w (params_projectId req) of
       None \<Rightarrow> (Inr (Response 404 (Message ''Project not found'')), w)
     | Some project \<Rightarrow>
        (case workflowStates (status project) of
           None \<Rightarrow> (Inl TypeError, w)
         | Some currentState \<Rightarrow>
            if body_newStatus req \<notin> set (allowedTransitions currentState)
            then (Inr (Response 400 (Message
                    (''Cannot transition from '' @ status project @ '' to '' @ body_newStatus req))), w)
            else
              (case workflowStates (body_newStatus req) of
                 None \<Rightarrow> (Inl TypeError, w)
               | Some targetState \<Rightarrow>
                  let missingDocuments =
                        collect_missing (documents project) (requiredDocuments targetState) []
                  in
                  if length missingDocuments > 0
                  then (Inr (Response 400 (MissingDocuments
                          ''Missing required documents for this transition'' missingDocuments)), w)
                  else
                    let project' = update_status e req project
                    in
                    if \<not> save_resolves e then (Inl SaveRejected, w)
                    else
                      let w1 = w\<lparr>stored := (stored w)(params_projectId req \<mapsto> project')\<rparr>;
                          w2 = w1\<lparr>notifications := notifications w1 @
                                 [status_notification req project' currentState targetState]\<rparr>
                      in
                      if \<not> createNotification_resolves e then (Inl NotificationRejected, w2)
                      else (Inr (Response 200
                              (StatusResult (status project') (statusHistory project'))), w2))))"

text \<open>The handler: the \<^verbatim>\<open>catch\<close> clause answers every thrown error with status 500.\<close>

definition transitionProjectStatus :: "env \<Rightarrow> request \<Rightarrow> world \<Rightarrow> response \<times> world" where
  "transitionProjectStatus e req w =
    (case transition_body e req w of
       (Inl error, w') \<Rightarrow> (Response 500 (Message ''Error updating project status''), w')
     | (Inr res, w') \<Rightarrow> (res, w'))"

section \<open>The two phases of the handler\<close>

text \<open>
  The handler first checks and then applies. The checks are its lines from
  \<^verbatim>\<open>Project.findById\<close> to the test of \<^verbatim>\<open>missingDocuments.length\<close>: they end the call
  with a response (or a thrown error), or pass and leave \<^verbatim>\<open>project\<close>, \<^verbatim>\<open>currentState\<close>
  and \<^verbatim>\<open>targetState\<close> bound for the rest of the body.
\<close>

datatype checked = Rejected "exn + response" | Passed project workflow_state workflow_state

text \<open>The checks, with the world they leave.\<close>

definition transition_checks :: "request \<Rightarrow> world \<Rightarrow> checked \<times> world" where
  "transition_checks req w =
    (case stored w (params_projectId req) of
       None \<Rightarrow> (Rejected (Inr (Response 404 (Message ''Project not found''))), w)
     | Some project \<Rightarrow>
        (case workflowStates (status project) of
           None \<Rightarrow> (Rejected (Inl TypeError), w)
         | Some currentState \<Rightarrow>
            if body_newStatus req \<notin> set (allowedTransitions currentState)
            then (Rejected (Inr (Response 400 (Message
                    (''Cannot transition from '' @ status project @ '' to '' @ body_newStatus req)))), w)
            else
              (case workflowStates (body_newStatus req) of
                 None \<Rightarrow> (Rejected (Inl TypeError), w)
               | Some targetState \<Rightarrow>
                  let missingDocuments =
                        collect_missing (documents project) (requiredDocuments targetState) []
                  in
                  if length missingDocuments > 0
                  then (Rejected (Inr (Response 400 (MissingDocuments
                          ''Missing required documents for this transition'' missingDocuments))), w)
                  else (Passed project currentState targetState, w))))"

text \<open>The rest of the body, from the update of the project to the response.\<close>

definition transition_apply ::
  "env \<Rightarrow> request \<Rightarrow> project \<Rightarrow> workflow_state \<Rightarrow> workflow_state \<Rightarrow> world
     \<Rightarrow> (exn + response) \<times> world" where
  "transition_apply e req project currentState targetState w =
    (let project' = update_status e req project
     in
     if \<not> save_resolves e then (Inl SaveRejected, w)
     else
       let w1 = w\<lparr>stored := (stored w)(params_projectId req \<mapsto> project')\<rparr>;
           w2 = w1\<lparr>notifications := notifications w1 @
                  [status_notification req project' currentState targetState]\<rparr>
       in
       if \<not> createNotification_resolves e then (Inl NotificationRejected, w2)
       else (Inr (Response 200
               (StatusResult (status project') (statusHistory project'))), w2))"

text \<open>The checks run for one request after the other, and the handler called for one
  request after the other, each on the world the one before left.\<close>

definition repeat_checks :: "request list \<Rightarrow> world \<Rightarrow> world" where
  "repeat_checks reqs w = fold (\<lambda>req w'. snd (transition_checks req w')) reqs w"

definition transition_calls :: "(env \<times> request) list \<Rightarrow> world \<Rightarrow> world" where
  "transition_calls calls w =
     fold (\<lambda>call w'. snd (transitionProjectStatus (fst call) (snd call) w')) calls w"

section \<open>The specification's table\<close>

text \<open>The ten states of the specification's state set, in the order it lists them.\<close>

definition state_set :: "string list" where
  "state_set = [''draft'', ''in-progress'', ''submitted'', ''validated'', ''registered'',
                ''monitoring'', ''verification'', ''verified'', ''issuance'', ''issued'']"

text \<open>
  The transition table as the specification prints it: state, the states reachable from
  it, the document types required to enter it.
\<close>

definition spec_transition_table :: "(string \<times> string list \<times> string list) list" where
  "spec_transition_table =
    [(''draft'', [''in-progress''], []),
     (''in-progress'', [''submitted'', ''draft''], [''project-design-document'']),
     (''submitted'', [''in-progress'', ''validated''],
        [''project-design-document'', ''supporting-documentation'']),
     (''validated'', [''registered''], [''validation-report'']),
     (''registered'', [''monitoring''], [''registration-proof'']),
     (''monitoring'', [''verification''], [''monitoring-report'']),
     (''verification'', [''verified'', ''monitoring''], [''verification-report'']),
     (''verified'', [''issuance'', ''monitoring''], [''verification-statement'']),
     (''issuance'', [''issued'', ''verified''], [''issuance-request'']),
     (''issued'', [''monitoring''], [''issuance-confirmation''])]"

text \<open>What the code's table answers for a state: its reachable set and the set of
  document types required to enter it.\<close>

definition table_row :: "string \<Rightarrow> (string set \<times> string set) option" where
  "table_row s =
     map_option (\<lambda>st. (set (allowedTransitions st), set (requiredDocuments st))) (workflowStates s)"

section \<open>The status invariant and sample runs\<close>

text \<open>The specification's invariant between \<^verbatim>\<open>status\<close> and \<^verbatim>\<open>statusHistory\<close>: the status is
  that of the most recent record, or \<^verbatim>\<open>draft\<close> while the history is empty.\<close>

definition consistent :: "project \<Rightarrow> bool" where
  "consistent p =
     (status p = (if statusHistory p = [] then ''draft''
                  else entry_status (last (statusHistory p))))"

text \<open>Every field of a notification event.\<close>

definition event_fields :: "notification \<Rightarrow> string list" where
  "event_fields n =
     [ntype n, projectId n, userId n, message n, data_newStatus n, data_previousStatus n]"

text \<open>
  Sample data for concrete runs: a project in a given state holding documents of the given
  types, whose history has the one record that brought it there; a store holding that
  project under the identifier \<^verbatim>\<open>p1\<close>; a request of \<^verbatim>\<open>user-7\<close> for a target state; and
  the parameters of a run.
\<close>

definition project_in :: "string \<Rightarrow> string list \<Rightarrow> project" where
  "project_in s types =
     \<lparr>status = s,
      statusHistory =
        [\<lparr>entry_status = s, timestamp = 500, updatedBy = ''user-0'', comment = ''created''\<rparr>],
      documents = map (\<lambda>t. \<lparr>documentType = t\<rparr>) types,
      owner = ''owner-1''\<rparr>"

definition world_with :: "project \<Rightarrow> world" where
  "world_with p = \<lparr>stored = [''p1'' \<mapsto> p], notifications = []\<rparr>"

definition request_to :: "string \<Rightarrow> request" where
  "request_to t =
     \<lparr>params_projectId = ''p1'', body_newStatus = t, body_comment = ''ok'', user_id = ''user-7''\<rparr>"

definition run_env :: "int \<Rightarrow> bool \<Rightarrow> bool \<Rightarrow> env" where
  "run_env t s n = \<lparr>now = t, save_resolves = s, createNotification_resolves = n\<rparr>"

text \<open>The history stored for a project identifier (empty when nothing is stored).\<close>

definition stored_history :: "world \<Rightarrow> string \<Rightarrow> status_change list" where
  "stored_history w k = (case stored w k of None \<Rightarrow> [] | Some p \<Rightarrow> statusHistory p)"

section \<open>Helper lemmas\<close>

lemma collect_missing_filter:
  "collect_missing docs required acc =
     acc @ filter (\<lambda>r. \<not> list_ex (\<lambda>doc. documentType doc = r) docs) required"
  by (induction required arbitrary: acc) (simp_all add: Let_def)

lemma collect_missing_set:
  "set (collect_missing docs required []) = set required - documentType ` set docs"
  by (auto simp: collect_missing_filter list_ex_iff)

lemma workflowStates_dom: "dom workflowStates = set state_set"
  unfolding workflowStates_def dom_map_of_conv_image_fst
  by (simp add: workflowStates_entries_def state_set_def)

lemma workflowStates_in_entries:
  "workflowStates s = Some st \<Longrightarrow> (s, st) \<in> set workflowStates_entries"
  unfolding workflowStates_def by (rule map_of_SomeD)

lemma no_self_transition:
  "workflowStates s = Some st \<Longrightarrow> s \<notin> set (allowedTransitions st)"
  by (drule workflowStates_in_entries) (auto simp: workflowStates_entries_def)

lemma transitions_closed:
  "workflowStates s = Some st \<Longrightarrow> t \<in> set (allowedTransitions st) \<Longrightarrow> t \<in> set state_set"
  by (drule workflowStates_in_entries) (auto simp: workflowStates_entries_def state_set_def)

lemma state_has_entry: "t \<in> set state_set \<Longrightarrow> \<exists>tgt. workflowStates t = Some tgt"
  using workflowStates_dom by blast

lemma body_unreachable:
  "stored w (params_projectId req) = Some p \<Longrightarrow> workflowStates (status p) = Some cur \<Longrightarrow>
   body_newStatus req \<notin> set (allowedTransitions cur) \<Longrightarrow>
   transition_body e req w =
     (Inr (Response 400 (Message
        (''Cannot transition from '' @ status p @ '' to '' @ body_newStatus req))), w)"
  by (simp add: transition_body_def)

lemma body_missing:
  "stored w (params_projectId req) = Some p \<Longrightarrow> workflowStates (status p) = Some cur \<Longrightarrow>
   body_newStatus req \<in> set (allowedTransitions cur) \<Longrightarrow>
   workflowStates (body_newStatus req) = Some tgt \<Longrightarrow>
   collect_missing (documents p) (requiredDocuments tgt) [] \<noteq> [] \<Longrightarrow>
   transition_body e req w =
     (Inr (Response 400 (MissingDocuments ''Missing required documents for this transition''
        (collect_missing (documents p) (requiredDocuments tgt) []))), w)"
  by (simp add: transition_body_def)

lemma body_apply:
  "stored w (params_projectId req) = Some p \<Longrightarrow> workflowStates (status p) = Some cur \<Longrightarrow>
   body_newStatus req \<in> set (allowedTransitions cur) \<Longrightarrow>
   workflowStates (body_newStatus req) = Some tgt \<Longrightarrow>
   collect_missing (documents p) (requiredDocuments tgt) [] = [] \<Longrightarrow>
   transition_body e req w =
     (if \<not> save_resolves e then (Inl SaveRejected, w)
      else
        (if \<not> createNotification_resolves e then Inl NotificationRejected
         else Inr (Response 200 (StatusResult (body_newStatus req)
                (statusHistory p @ [status_record e req]))),
         \<lparr>stored = (stored w)(params_projectId req \<mapsto> update_status e req p),
           notifications = notifications w @ [status_notification req p cur tgt]\<rparr>))"
  by (simp add: transition_body_def Let_def update_status_def status_notification_def)

lemma workflowStates_lookup:
  "workflowStates ''draft'' =
     Some \<lparr>name = ''Draft'', allowedTransitions = [''in-progress''], requiredDocuments = []\<rparr>"
  "workflowStates ''in-progress'' =
     Some \<lparr>name = ''In Progress'', allowedTransitions = [''submitted'', ''draft''],
           requiredDocuments = [''project-design-document'']\<rparr>"
  "workflowStates ''monitoring'' =
     Some \<lparr>name = ''Monitoring'', allowedTransitions = [''verification''],
           requiredDocuments = [''monitoring-report'']\<rparr>"
  "workflowStates ''issued'' =
     Some \<lparr>name = ''Credits Issued'', allowedTransitions = [''monitoring''],
           requiredDocuments = [''issuance-confirmation'']\<rparr>"
  by (simp_all add: workflowStates_def workflowStates_entries_def)

lemma stored_world_with: "stored (world_with p) (params_projectId (request_to t)) = Some p"
  by (simp add: world_with_def request_to_def)

lemma collect_missing_nonempty:
  "collect_missing docs required [] \<noteq> [] \<longleftrightarrow> \<not> set required \<subseteq> documentType ` set docs"
proof -
  have "collect_missing docs required [] \<noteq> [] \<longleftrightarrow>
        set (collect_missing docs required []) \<noteq> {}"
    by simp
  then show ?thesis
    unfolding collect_missing_set by blast
qed

lemma collect_missing_notin:
  "collect_missing docs required [] = filter (\<lambda>r. r \<notin> documentType ` set docs) required"
proof -
  have "(\<lambda>r. \<not> list_ex (\<lambda>doc. documentType doc = r) docs) = (\<lambda>r. r \<notin> documentType ` set docs)"
    by (auto simp: list_ex_iff)
  then show ?thesis by (simp add: collect_missing_filter)
qed

lemma stored_step:
  assumes "stored w k = Some p"
  shows "stored (snd (transitionProjectStatus e req w)) k = Some p
       \<or> stored (snd (transitionProjectStatus e req w)) k = Some (update_status e req p)"
  using assms
  by (auto simp: transitionProjectStatus_def transition_body_def Let_def
      split: option.splits)

lemma success_only_by_apply:
  assumes "fst (transitionProjectStatus e req w) = Response 200 b"
  shows "\<exists>p. stored w (params_projectId req) = Some p
       \<and> b = StatusResult (body_newStatus req) (statusHistory p @ [status_record e req])
       \<and> stored (snd (transitionProjectStatus e req w)) (params_projectId req) =
           Some (update_status e req p)"
  using assms
  by (auto simp: transitionProjectStatus_def transition_body_def Let_def update_status_def
      split: option.splits if_splits)

lemma rejected_unchanged:
  assumes "fst (transitionProjectStatus e req w) = Response 400 b"
  shows "snd (transitionProjectStatus e req w) = w"
  using assms
  by (auto simp: transitionProjectStatus_def transition_body_def Let_def
      split: option.splits if_splits)

lemma sorted_snoc_last:
  fixes xs :: "int list"
  assumes "sorted xs" and "xs \<noteq> [] \<longrightarrow> last xs \<le> x"
  shows "sorted (xs @ [x])"
proof (cases "xs = []")
  case True
  then show ?thesis by simp
next
  case False
  have "y \<le> x" if "y \<in> set xs" for y
  proof -
    from that obtain i where i: "i < length xs" "xs ! i = y"
      by (auto simp: in_set_conv_nth)
    have "xs ! i \<le> xs ! (length xs - 1)"
      using assms(1) i(1) by (intro sorted_nth_mono) auto
    also have "\<dots> = last xs"
      using False by (simp add: last_conv_nth)
    finally show ?thesis using assms(2) False i(2) by simp
  qed
  with assms(1) show ?thesis by (simp add: sorted_append)
qed


lemma sample_lookups:
  "stored (world_with p) ''p1'' = Some p"
  "params_projectId (request_to t) = ''p1''"
  "body_newStatus (request_to t) = t"
  "status (project_in s types) = s"
  "map documentType (documents (project_in s types)) = types"
  "notifications (world_with p) = []"
  by (simp_all add: world_with_def request_to_def project_in_def comp_def)

lemma sample_documents: "documentType ` set (documents (project_in s types)) = set types"
  using sample_lookups(5) [of s types] by (metis set_map)

lemma draft_to_in_progress_passes:
  "stored (world_with (project_in ''draft'' [''project-design-document'']))
      (params_projectId (request_to ''in-progress'')) =
     Some (project_in ''draft'' [''project-design-document''])"
  "workflowStates (status (project_in ''draft'' [''project-design-document''])) =
     Some \<lparr>name = ''Draft'', allowedTransitions = [''in-progress''], requiredDocuments = []\<rparr>"
  "body_newStatus (request_to ''in-progress'') \<in> set (allowedTransitions
     \<lparr>name = ''Draft'', allowedTransitions = [''in-progress''], requiredDocuments = []\<rparr>)"
  "workflowStates (body_newStatus (request_to ''in-progress'')) =
     Some \<lparr>name = ''In Progress'', allowedTransitions = [''submitted'', ''draft''],
           requiredDocuments = [''project-design-document'']\<rparr>"
  "set (requiredDocuments \<lparr>name = ''In Progress'', allowedTransitions = [''submitted'', ''draft''],
           requiredDocuments = [''project-design-document'']\<rparr>)
     \<subseteq> documentType ` set (documents (project_in ''draft'' [''project-design-document'']))"
  by (simp_all add: sample_lookups sample_documents workflowStates_lookup)

lemma covered_collect:
  "set required \<subseteq> documentType ` set docs \<Longrightarrow> collect_missing docs required [] = []"
  using collect_missing_nonempty [of docs required] by blast

lemma body_checks_then_apply:
  "transition_body e req w =
     (case transition_checks req w of
        (Rejected r, w') \<Rightarrow> (r, w')
      | (Passed project currentState targetState, w') \<Rightarrow>
          transition_apply e req project currentState targetState w')"
  by (simp add: transition_body_def transition_checks_def transition_apply_def Let_def
      split: option.splits)

lemma checks_unchanged: "snd (transition_checks req w) = w"
  by (simp add: transition_checks_def Let_def split: option.splits)

lemma repeat_checks_unchanged: "repeat_checks reqs w = w"
  unfolding repeat_checks_def
  by (induction reqs arbitrary: w) (simp_all add: checks_unchanged)

lemma documents_step:
  assumes "stored w k = Some p"
  shows "\<exists>p'. stored (snd (transitionProjectStatus e req w)) k = Some p'
           \<and> documents p' = documents p"
  using stored_step [OF assms, of e req] by (auto simp: update_status_def)

lemma documents_calls:
  "stored w k = Some p \<Longrightarrow>
   \<exists>p'. stored (transition_calls calls w) k = Some p' \<and> documents p' = documents p"
proof (induction calls arbitrary: w p)
  case Nil
  then show ?case by (simp add: transition_calls_def)
next
  case (Cons c cs)
  from documents_step [OF Cons.prems, of "fst c" "snd c"]
  obtain q where q: "stored (snd (transitionProjectStatus (fst c) (snd c) w)) k = Some q"
      "documents q = documents p"
    by blast
  from Cons.IH [OF q(1)] q(2) show ?case
    by (simp add: transition_calls_def)
qed

lemma stored_step_cases:
  assumes "stored w k = Some p"
  shows "stored (snd (transitionProjectStatus e req w)) k = Some p
       \<or> (\<exists>cur tgt. transition_checks req w = (Passed p cur tgt, w)
            \<and> save_resolves e \<and> k = params_projectId req
            \<and> stored (snd (transitionProjectStatus e req w)) k = Some (update_status e req p))"
  using assms
  by (auto simp: transitionProjectStatus_def transition_body_def transition_checks_def Let_def
      split: option.splits)

lemma draft_to_in_progress_checks:
  "transition_checks (request_to ''in-progress'')
      (world_with (project_in ''draft'' [''project-design-document''])) =
     (Passed (project_in ''draft'' [''project-design-document''])
        \<lparr>name = ''Draft'', allowedTransitions = [''in-progress''], requiredDocuments = []\<rparr>
        \<lparr>name = ''In Progress'', allowedTransitions = [''submitted'', ''draft''],
          requiredDocuments = [''project-design-document'']\<rparr>,
      world_with (project_in ''draft'' [''project-design-document'']))"
proof -
  have none: "collect_missing (documents (project_in ''draft'' [''project-design-document'']))
     [''project-design-document''] [] = []"
    using covered_collect [OF draft_to_in_progress_passes(5)] by simp
  show ?thesis
    using draft_to_in_progress_passes(1-4) none
    by (simp add: transition_checks_def)
qed

section \<open>The table\<close>

text \<open>
  C1. The table in the code is the table of the specification: the keys of
  \<^verbatim>\<open>workflowStates\<close> are exactly the ten states, and for each of them, taken in the
  specification's order, the reachable set and the set of document types required to
  enter it are the ones the specification's table lists.
\<close>

theorem C1_table_matches_spec:
  "map fst spec_transition_table = state_set
   \<and> dom workflowStates = set state_set
   \<and> map table_row state_set =
       map (\<lambda>(s, reachable, required). Some (set reachable, set required)) spec_transition_table"
  unfolding workflowStates_dom
  by (simp add: spec_transition_table_def state_set_def table_row_def workflowStates_def
      workflowStates_entries_def)

section \<open>Rejected requests\<close>

text \<open>
  C2. For a stored project whose status \<open>s\<close> is a state of the table and a requested
  target that is not among the transitions allowed from \<open>s\<close>, the handler answers 400 with
  the message "Cannot transition from s to t" (the invalid-transition error) and leaves the
  world as it was: the stored status and history, and everything else, are unchanged.
\<close>

theorem C2_unreachable_target_rejected:
  assumes "stored w (params_projectId req) = Some p"
    and "workflowStates (status p) = Some cur"
    and "body_newStatus req \<notin> set (allowedTransitions cur)"
  shows "transitionProjectStatus e req w =
     (Response 400 (Message
        (''Cannot transition from '' @ status p @ '' to '' @ body_newStatus req)), w)"
  using body_unreachable [OF assms] by (simp add: transitionProjectStatus_def)

text \<open>Scenario C of the specification: from \<^verbatim>\<open>monitoring\<close>, a request for \<^verbatim>\<open>verified\<close>.\<close>

theorem C2_scenario_C_witness:
  "transitionProjectStatus (run_env 1000 True True) (request_to ''verified'')
     (world_with (project_in ''monitoring'' [''monitoring-report''])) =
   (Response 400 (Message ''Cannot transition from monitoring to verified''),
    world_with (project_in ''monitoring'' [''monitoring-report'']))"
proof -
  let ?p = "project_in ''monitoring'' [''monitoring-report'']"
  have cur: "workflowStates (status ?p) =
      Some \<lparr>name = ''Monitoring'', allowedTransitions = [''verification''],
            requiredDocuments = [''monitoring-report'']\<rparr>"
    by (simp add: project_in_def workflowStates_lookup)
  have unreachable: "body_newStatus (request_to ''verified'') \<notin>
      set (allowedTransitions \<lparr>name = ''Monitoring'', allowedTransitions = [''verification''],
            requiredDocuments = [''monitoring-report'']\<rparr>)"
    by (simp add: request_to_def)
  show ?thesis
    using C2_unreachable_target_rejected [OF stored_world_with cur unreachable]
    by (simp add: project_in_def request_to_def)
qed

text \<open>
  C3. For a target \<open>t\<close> reachable from the current state, with required document types
  \<open>R\<close> (those of the entry of \<open>t\<close>, the target), if the project's documents do not cover
  \<open>R\<close> the handler answers 400 with the missing-documents body, which lists every type of
  \<open>R\<close> that no document of the project has (all of them, in the order of \<open>R\<close>), that is,
  exactly \<open>R\<close> minus the types present; the world is unchanged. In particular, from
  \<^verbatim>\<open>issued\<close> to \<^verbatim>\<open>monitoring\<close> the type asked for is \<^verbatim>\<open>monitoring-report\<close>.
\<close>

theorem C3_missing_documents_rejected:
  assumes "stored w (params_projectId req) = Some p"
    and "workflowStates (status p) = Some cur"
    and "body_newStatus req \<in> set (allowedTransitions cur)"
    and "workflowStates (body_newStatus req) = Some tgt"
    and "\<not> set (requiredDocuments tgt) \<subseteq> documentType ` set (documents p)"
  shows "transitionProjectStatus e req w =
     (Response 400 (MissingDocuments ''Missing required documents for this transition''
        (filter (\<lambda>r. r \<notin> documentType ` set (documents p)) (requiredDocuments tgt))), w)
   \<and> set (filter (\<lambda>r. r \<notin> documentType ` set (documents p)) (requiredDocuments tgt)) =
       set (requiredDocuments tgt) - documentType ` set (documents p)
   \<and> (status p = ''issued'' \<and> body_newStatus req = ''monitoring'' \<longrightarrow>
        ''monitoring-report'' \<notin> documentType ` set (documents p)
        \<and> filter (\<lambda>r. r \<notin> documentType ` set (documents p)) (requiredDocuments tgt) =
            [''monitoring-report''])"
proof -
  have gap: "collect_missing (documents p) (requiredDocuments tgt) [] \<noteq> []"
    using assms(5) by (simp add: collect_missing_nonempty)
  have first: "transitionProjectStatus e req w =
     (Response 400 (MissingDocuments ''Missing required documents for this transition''
        (filter (\<lambda>r. r \<notin> documentType ` set (documents p)) (requiredDocuments tgt))), w)"
    using body_missing [OF assms(1-4) gap]
    by (simp add: transitionProjectStatus_def collect_missing_notin)
  have second: "set (filter (\<lambda>r. r \<notin> documentType ` set (documents p)) (requiredDocuments tgt)) =
       set (requiredDocuments tgt) - documentType ` set (documents p)"
    by auto
  have third: "''monitoring-report'' \<notin> documentType ` set (documents p)
        \<and> filter (\<lambda>r. r \<notin> documentType ` set (documents p)) (requiredDocuments tgt) =
            [''monitoring-report'']"
    if "status p = ''issued''" and t: "body_newStatus req = ''monitoring''"
  proof -
    have "requiredDocuments tgt = [''monitoring-report'']"
      using assms(4) t by (auto simp: workflowStates_lookup)
    with assms(5) show ?thesis by simp
  qed
  from first second third show ?thesis by blast
qed

text \<open>Scenario D: an issued project that holds only its issuance confirmation.\<close>

theorem C3_scenario_D_witness:
  "transitionProjectStatus (run_env 1000 True True) (request_to ''monitoring'')
     (world_with (project_in ''issued'' [''issuance-confirmation''])) =
   (Response 400 (MissingDocuments ''Missing required documents for this transition''
      [''monitoring-report'']),
    world_with (project_in ''issued'' [''issuance-confirmation'']))"
proof -
  let ?p = "project_in ''issued'' [''issuance-confirmation'']"
  let ?cur = "\<lparr>name = ''Credits Issued'', allowedTransitions = [''monitoring''],
           requiredDocuments = [''issuance-confirmation'']\<rparr>"
  let ?tgt = "\<lparr>name = ''Monitoring'', allowedTransitions = [''verification''],
           requiredDocuments = [''monitoring-report'']\<rparr>"
  have cur: "workflowStates (status ?p) = Some ?cur"
    by (simp add: project_in_def workflowStates_lookup)
  have reach: "body_newStatus (request_to ''monitoring'') \<in> set (allowedTransitions ?cur)"
    by (simp add: request_to_def)
  have tgt: "workflowStates (body_newStatus (request_to ''monitoring'')) = Some ?tgt"
    by (simp add: request_to_def workflowStates_lookup)
  have gap: "\<not> set (requiredDocuments ?tgt) \<subseteq> documentType ` set (documents ?p)"
    by (simp add: project_in_def)
  show ?thesis
    using C3_missing_documents_rejected [OF stored_world_with cur reach tgt gap]
    by (simp add: project_in_def request_to_def)
qed

section \<open>The successful transition\<close>

text \<open>
  C4. When the reachability check and the prerequisite check both pass and the two awaited
  collaborators (\<^verbatim>\<open>project.save()\<close> and \<^verbatim>\<open>createNotification\<close>) both resolve, the handler
  answers 200 with the new status and the updated history. Whenever the handler answers
  200, the stored project has the target as its status, its history is the earlier
  history, unchanged, followed by exactly one new record whose status is the target and
  whose \<^verbatim>\<open>updatedBy\<close> and \<^verbatim>\<open>comment\<close> are the requester and the comment of the call, and
  that status and history are what the response carries. When both checks pass and
  \<^verbatim>\<open>project.save()\<close> rejects, the handler answers 500 and the world is unchanged.
\<close>

theorem C4_apply:
  "(\<forall>p cur tgt.
      stored w (params_projectId req) = Some p
      \<and> workflowStates (status p) = Some cur
      \<and> body_newStatus req \<in> set (allowedTransitions cur)
      \<and> workflowStates (body_newStatus req) = Some tgt
      \<and> set (requiredDocuments tgt) \<subseteq> documentType ` set (documents p)
      \<and> save_resolves e \<and> createNotification_resolves e
      \<longrightarrow> fst (transitionProjectStatus e req w) =
            Response 200 (StatusResult (body_newStatus req)
              (statusHistory p @
                 [\<lparr>entry_status = body_newStatus req, timestamp = now e,
                   updatedBy = user_id req, comment = body_comment req\<rparr>])))
   \<and> (\<forall>b. fst (transitionProjectStatus e req w) = Response 200 b
      \<longrightarrow> (\<exists>p p'. stored w (params_projectId req) = Some p
            \<and> stored (snd (transitionProjectStatus e req w)) (params_projectId req) = Some p'
            \<and> status p' = body_newStatus req
            \<and> statusHistory p' = statusHistory p @
                 [\<lparr>entry_status = body_newStatus req, timestamp = now e,
                   updatedBy = user_id req, comment = body_comment req\<rparr>]
            \<and> length (statusHistory p') = length (statusHistory p) + 1
            \<and> documents p' = documents p \<and> owner p' = owner p
            \<and> b = StatusResult (status p') (statusHistory p')))
   \<and> (\<forall>p cur tgt.
      stored w (params_projectId req) = Some p
      \<and> workflowStates (status p) = Some cur
      \<and> body_newStatus req \<in> set (allowedTransitions cur)
      \<and> workflowStates (body_newStatus req) = Some tgt
      \<and> set (requiredDocuments tgt) \<subseteq> documentType ` set (documents p)
      \<and> \<not> save_resolves e
      \<longrightarrow> transitionProjectStatus e req w =
            (Response 500 (Message ''Error updating project status''), w))"
proof (intro conjI allI impI)
  fix p cur tgt
  assume h: "stored w (params_projectId req) = Some p
      \<and> workflowStates (status p) = Some cur
      \<and> body_newStatus req \<in> set (allowedTransitions cur)
      \<and> workflowStates (body_newStatus req) = Some tgt
      \<and> set (requiredDocuments tgt) \<subseteq> documentType ` set (documents p)
      \<and> save_resolves e \<and> createNotification_resolves e"
  then have none: "collect_missing (documents p) (requiredDocuments tgt) [] = []"
    by (simp add: covered_collect)
  from h have "transition_body e req w =
      (Inr (Response 200 (StatusResult (body_newStatus req)
                (statusHistory p @ [status_record e req]))),
       \<lparr>stored = (stored w)(params_projectId req \<mapsto> update_status e req p),
         notifications = notifications w @ [status_notification req p cur tgt]\<rparr>)"
    using body_apply [of w req p cur tgt e] none by simp
  then show "fst (transitionProjectStatus e req w) =
            Response 200 (StatusResult (body_newStatus req)
              (statusHistory p @
                 [\<lparr>entry_status = body_newStatus req, timestamp = now e,
                   updatedBy = user_id req, comment = body_comment req\<rparr>]))"
    by (simp add: transitionProjectStatus_def status_record_def)
next
  fix b
  assume "fst (transitionProjectStatus e req w) = Response 200 b"
  from success_only_by_apply [OF this]
  obtain p where p: "stored w (params_projectId req) = Some p"
      "b = StatusResult (body_newStatus req) (statusHistory p @ [status_record e req])"
      "stored (snd (transitionProjectStatus e req w)) (params_projectId req) =
           Some (update_status e req p)"
    by blast
  show "\<exists>p p'. stored w (params_projectId req) = Some p
            \<and> stored (snd (transitionProjectStatus e req w)) (params_projectId req) = Some p'
            \<and> status p' = body_newStatus req
            \<and> statusHistory p' = statusHistory p @
                 [\<lparr>entry_status = body_newStatus req, timestamp = now e,
                   updatedBy = user_id req, comment = body_comment req\<rparr>]
            \<and> length (statusHistory p') = length (statusHistory p) + 1
            \<and> documents p' = documents p \<and> owner p' = owner p
            \<and> b = StatusResult (status p') (statusHistory p')"
    using p by (intro exI [of _ p] exI [of _ "update_status e req p"])
      (simp add: update_status_def status_record_def)
next
  fix p cur tgt
  assume h: "stored w (params_projectId req) = Some p
      \<and> workflowStates (status p) = Some cur
      \<and> body_newStatus req \<in> set (allowedTransitions cur)
      \<and> workflowStates (body_newStatus req) = Some tgt
      \<and> set (requiredDocuments tgt) \<subseteq> documentType ` set (documents p)
      \<and> \<not> save_resolves e"
  then have none: "collect_missing (documents p) (requiredDocuments tgt) [] = []"
    by (simp add: covered_collect)
  from h have "transition_body e req w = (Inl SaveRejected, w)"
    using body_apply [of w req p cur tgt e] none by simp
  then show "transitionProjectStatus e req w =
            (Response 500 (Message ''Error updating project status''), w)"
    by (simp add: transitionProjectStatus_def)
qed

text \<open>Scenario B: a draft project holding its project design document moves to
  \<^verbatim>\<open>in-progress\<close>; and the same request when the save rejects.\<close>

theorem C4_scenario_B_witness:
  "fst (transitionProjectStatus (run_env 1000 True True) (request_to ''in-progress'')
         (world_with (project_in ''draft'' [''project-design-document'']))) =
     Response 200 (StatusResult ''in-progress''
       [\<lparr>entry_status = ''draft'', timestamp = 500, updatedBy = ''user-0'', comment = ''created''\<rparr>,
        \<lparr>entry_status = ''in-progress'', timestamp = 1000, updatedBy = ''user-7'', comment = ''ok''\<rparr>])
   \<and> (\<exists>p'. stored (snd (transitionProjectStatus (run_env 1000 True True) (request_to ''in-progress'')
                 (world_with (project_in ''draft'' [''project-design-document'']))))
              (params_projectId (request_to ''in-progress'')) = Some p'
          \<and> status p' = ''in-progress''
          \<and> length (statusHistory p') =
              length (statusHistory (project_in ''draft'' [''project-design-document''])) + 1)
   \<and> transitionProjectStatus (run_env 1000 False True) (request_to ''in-progress'')
         (world_with (project_in ''draft'' [''project-design-document''])) =
       (Response 500 (Message ''Error updating project status''),
        world_with (project_in ''draft'' [''project-design-document'']))"
proof -
  let ?e = "run_env 1000 True True"
  let ?req = "request_to ''in-progress''"
  let ?w = "world_with (project_in ''draft'' [''project-design-document''])"
  note C4 = C4_apply [of ?w ?req ?e]
  have res: "save_resolves ?e \<and> createNotification_resolves ?e"
    by (simp add: run_env_def)
  have ok: "fst (transitionProjectStatus ?e ?req ?w) =
      Response 200 (StatusResult (body_newStatus ?req)
        (statusHistory (project_in ''draft'' [''project-design-document'']) @
           [\<lparr>entry_status = body_newStatus ?req, timestamp = now ?e,
             updatedBy = user_id ?req, comment = body_comment ?req\<rparr>]))"
    using C4 [THEN conjunct1, rule_format, OF conjI [OF draft_to_in_progress_passes(1)
      conjI [OF draft_to_in_progress_passes(2) conjI [OF draft_to_in_progress_passes(3)
      conjI [OF draft_to_in_progress_passes(4) conjI [OF draft_to_in_progress_passes(5) res]]]]]] .
  from C4 [THEN conjunct2, THEN conjunct1, rule_format, OF ok]
  obtain p p' where pp: "stored ?w (params_projectId ?req) = Some p"
      "stored (snd (transitionProjectStatus ?e ?req ?w)) (params_projectId ?req) = Some p'"
      "status p' = body_newStatus ?req"
      "length (statusHistory p') = length (statusHistory p) + 1"
    by blast
  from pp(1) have "p = project_in ''draft'' [''project-design-document'']"
    by (simp add: draft_to_in_progress_passes(1))
  with pp have "\<exists>p'. stored (snd (transitionProjectStatus ?e ?req ?w)) (params_projectId ?req) = Some p'
          \<and> status p' = ''in-progress''
          \<and> length (statusHistory p') =
              length (statusHistory (project_in ''draft'' [''project-design-document''])) + 1"
    by (auto simp: sample_lookups)
  moreover from ok have "fst (transitionProjectStatus ?e ?req ?w) =
     Response 200 (StatusResult ''in-progress''
       [\<lparr>entry_status = ''draft'', timestamp = 500, updatedBy = ''user-0'', comment = ''created''\<rparr>,
        \<lparr>entry_status = ''in-progress'', timestamp = 1000, updatedBy = ''user-7'', comment = ''ok''\<rparr>])"
    by (simp add: request_to_def project_in_def run_env_def)
  moreover have "transitionProjectStatus (run_env 1000 False True) ?req ?w =
       (Response 500 (Message ''Error updating project status''), ?w)"
  proof -
    have rej: "\<not> save_resolves (run_env 1000 False True)"
      by (simp add: run_env_def)
    show ?thesis
      using C4_apply [of ?w ?req "run_env 1000 False True", THEN conjunct2, THEN conjunct2,
        rule_format, OF conjI [OF draft_to_in_progress_passes(1)
        conjI [OF draft_to_in_progress_passes(2) conjI [OF draft_to_in_progress_passes(3)
        conjI [OF draft_to_in_progress_passes(4) conjI [OF draft_to_in_progress_passes(5) rej]]]]]] .
  qed
  ultimately show ?thesis by blast
qed



text \<open>
  Passing both checks is not enough for a successful answer. For the draft project of
  scenario B both checks pass; when \<^verbatim>\<open>project.save()\<close> rejects, the \<^verbatim>\<open>catch\<close> clause
  answers 500 and nothing is stored, and when only \<^verbatim>\<open>createNotification\<close> rejects, the
  answer is 500 as well, although the new status has been stored by then.
\<close>

theorem C4_collaborator_failure_counterexample:
  "map_option allowedTransitions
      (workflowStates (status (project_in ''draft'' [''project-design-document''])))
     = Some [''in-progress'']
   \<and> map_option requiredDocuments (workflowStates ''in-progress'')
     = Some [''project-design-document'']
   \<and> map documentType (documents (project_in ''draft'' [''project-design-document'']))
     = [''project-design-document'']
   \<and> transitionProjectStatus (run_env 1000 False True) (request_to ''in-progress'')
        (world_with (project_in ''draft'' [''project-design-document'']))
     = (Response 500 (Message ''Error updating project status''),
        world_with (project_in ''draft'' [''project-design-document'']))
   \<and> fst (transitionProjectStatus (run_env 1000 True False) (request_to ''in-progress'')
        (world_with (project_in ''draft'' [''project-design-document''])))
     = Response 500 (Message ''Error updating project status'')
   \<and> map_option status
        (stored (snd (transitionProjectStatus (run_env 1000 True False) (request_to ''in-progress'')
           (world_with (project_in ''draft'' [''project-design-document''])))) ''p1'')
     = Some ''in-progress''"
proof -
  have none: "collect_missing (documents (project_in ''draft'' [''project-design-document'']))
     (requiredDocuments \<lparr>name = ''In Progress'', allowedTransitions = [''submitted'', ''draft''],
           requiredDocuments = [''project-design-document'']\<rparr>) [] = []"
    by (rule covered_collect) (rule draft_to_in_progress_passes(5))
  note body = body_apply [OF draft_to_in_progress_passes(1-4) none]
  show ?thesis
    by (simp add: transitionProjectStatus_def body sample_lookups workflowStates_lookup run_env_def
        update_status_def)
qed

section \<open>Invariants of the stored projects\<close>

text \<open>
  C5. The invariant between status and history is preserved by every call of the handler,
  whatever its outcome: a stored project whose status is that of its most recent history
  record (or \<^verbatim>\<open>draft\<close> when its history is empty) is still stored after the call, and still
  satisfies the invariant.
\<close>

theorem C5_consistency_preserved:
  assumes "stored w k = Some p" and "consistent p"
  shows "\<exists>p'. stored (snd (transitionProjectStatus e req w)) k = Some p' \<and> consistent p'"
proof -
  have "consistent (update_status e req p)"
    by (simp add: consistent_def update_status_def status_record_def)
  with stored_step [OF assms(1), of e req] assms(2) show ?thesis by auto
qed

text \<open>The invariant across the successful run of scenario B.\<close>

theorem C5_witness:
  "consistent (project_in ''draft'' [''project-design-document''])
   \<and> (\<exists>p'. stored (snd (transitionProjectStatus (run_env 1000 True True)
                (request_to ''in-progress'')
                (world_with (project_in ''draft'' [''project-design-document'']))))
              ''p1'' = Some p'
          \<and> consistent p')"
proof -
  have c: "consistent (project_in ''draft'' [''project-design-document''])"
    by (simp add: consistent_def project_in_def)
  from C5_consistency_preserved [OF sample_lookups(1) c] c show ?thesis by blast
qed

section \<open>The notification\<close>

text \<open>
  C6. After every successful apply (both checks pass and the save resolves) the handler
  calls \<^verbatim>\<open>createNotification\<close> exactly once. The event carries the type
  \<^verbatim>\<open>status-change\<close>, the project identifier, the new state, the display name of the
  previous state and, as \<^verbatim>\<open>userId\<close>, the owner of the project. The identifier of the
  requester is not used for it: the event is the same whoever makes the request.
\<close>

theorem C6_notification_after_apply:
  assumes "stored w (params_projectId req) = Some p"
    and "workflowStates (status p) = Some cur"
    and "body_newStatus req \<in> set (allowedTransitions cur)"
    and "workflowStates (body_newStatus req) = Some tgt"
    and "set (requiredDocuments tgt) \<subseteq> documentType ` set (documents p)"
    and "save_resolves e"
  shows "notifications (snd (transitionProjectStatus e req w)) =
       notifications w @
         [\<lparr>ntype = ''status-change'',
           projectId = params_projectId req,
           userId = owner p,
           message = ''Project status changed to '' @ name tgt,
           data_newStatus = body_newStatus req,
           data_previousStatus = name cur\<rparr>]
   \<and> (\<forall>u. notifications (snd (transitionProjectStatus e (req\<lparr>user_id := u\<rparr>) w)) =
       notifications w @
         [\<lparr>ntype = ''status-change'',
           projectId = params_projectId req,
           userId = owner p,
           message = ''Project status changed to '' @ name tgt,
           data_newStatus = body_newStatus req,
           data_previousStatus = name cur\<rparr>])"
proof -
  have none: "collect_missing (documents p) (requiredDocuments tgt) [] = []"
    using assms(5) by (rule covered_collect)
  have event: "notifications (snd (transitionProjectStatus e (req\<lparr>user_id := u\<rparr>) w)) =
       notifications w @
         [\<lparr>ntype = ''status-change'',
           projectId = params_projectId req,
           userId = owner p,
           message = ''Project status changed to '' @ name tgt,
           data_newStatus = body_newStatus req,
           data_previousStatus = name cur\<rparr>]" for u
    using body_apply [of w "req\<lparr>user_id := u\<rparr>" p cur tgt e] assms none
    by (simp add: transitionProjectStatus_def status_notification_def)
  from event [of "user_id req"] event show ?thesis by simp
qed

text \<open>The event of scenario B, requested by \<^verbatim>\<open>user-7\<close> and requested by the owner.\<close>

theorem C6_witness:
  "notifications (snd (transitionProjectStatus (run_env 1000 True True)
       (request_to ''in-progress'')
       (world_with (project_in ''draft'' [''project-design-document''])))) =
     [\<lparr>ntype = ''status-change'',
       projectId = ''p1'',
       userId = ''owner-1'',
       message = ''Project status changed to In Progress'',
       data_newStatus = ''in-progress'',
       data_previousStatus = ''Draft''\<rparr>]
   \<and> notifications (snd (transitionProjectStatus (run_env 1000 True True)
       ((request_to ''in-progress'')\<lparr>user_id := ''owner-1''\<rparr>)
       (world_with (project_in ''draft'' [''project-design-document''])))) =
     [\<lparr>ntype = ''status-change'',
       projectId = ''p1'',
       userId = ''owner-1'',
       message = ''Project status changed to In Progress'',
       data_newStatus = ''in-progress'',
       data_previousStatus = ''Draft''\<rparr>]"
proof -
  have s: "save_resolves (run_env 1000 True True)"
    by (simp add: run_env_def)
  note run = C6_notification_after_apply [OF draft_to_in_progress_passes s]
  from run [THEN conjunct1] run [THEN conjunct2, rule_format, of "''owner-1''"]
  show ?thesis
    by (simp add: sample_lookups request_to_def project_in_def)
qed

text \<open>
  In scenario B the request comes from \<^verbatim>\<open>user-7\<close> and the project, owned by
  \<^verbatim>\<open>owner-1\<close>, leaves the state \<^verbatim>\<open>draft\<close>. The call succeeds and the one event emitted
  has no field that is the requester's identifier, and none that is the identifier of the
  previous state.
\<close>

theorem C6_no_actor_counterexample:
  "fst (transitionProjectStatus (run_env 1000 True True) (request_to ''in-progress'')
         (world_with (project_in ''draft'' [''project-design-document'']))) =
     Response 200 (StatusResult ''in-progress''
       [\<lparr>entry_status = ''draft'', timestamp = 500, updatedBy = ''user-0'', comment = ''created''\<rparr>,
        \<lparr>entry_status = ''in-progress'', timestamp = 1000, updatedBy = ''user-7'', comment = ''ok''\<rparr>])
   \<and> user_id (request_to ''in-progress'') = ''user-7''
   \<and> status (project_in ''draft'' [''project-design-document'']) = ''draft''
   \<and> map event_fields (notifications (snd (transitionProjectStatus (run_env 1000 True True)
         (request_to ''in-progress'')
         (world_with (project_in ''draft'' [''project-design-document''])))))
     = [[''status-change'', ''p1'', ''owner-1'', ''Project status changed to In Progress'',
         ''in-progress'', ''Draft'']]
   \<and> ''user-7'' \<notin> set [''status-change'', ''p1'', ''owner-1'',
         ''Project status changed to In Progress'', ''in-progress'', ''Draft'']
   \<and> ''draft'' \<notin> set [''status-change'', ''p1'', ''owner-1'',
         ''Project status changed to In Progress'', ''in-progress'', ''Draft'']"
proof -
  have none: "collect_missing (documents (project_in ''draft'' [''project-design-document'']))
     (requiredDocuments \<lparr>name = ''In Progress'', allowedTransitions = [''submitted'', ''draft''],
           requiredDocuments = [''project-design-document'']\<rparr>) [] = []"
    by (rule covered_collect) (rule draft_to_in_progress_passes(5))
  note body = body_apply [OF draft_to_in_progress_passes(1-4) none]
  show ?thesis
    by (simp add: transitionProjectStatus_def body run_env_def status_notification_def
        status_record_def event_fields_def)
      (simp add: request_to_def project_in_def world_with_def)
qed

section \<open>Requests the table rules out\<close>

text \<open>
  C7. No state of the table lists itself among its allowed transitions, so a request to
  move a project into the state it is already in is answered with the invalid-transition
  error, and nothing changes.
\<close>

theorem C7_no_op_transition_rejected:
  assumes "stored w (params_projectId req) = Some p"
    and "workflowStates (status p) = Some cur"
    and "body_newStatus req = status p"
  shows "status p \<notin> set (allowedTransitions cur)
   \<and> transitionProjectStatus e req w =
     (Response 400 (Message (''Cannot transition from '' @ status p @ '' to '' @ status p)), w)"
  using body_unreachable [OF assms(1,2), of e] no_self_transition [OF assms(2)] assms(3)
  by (simp add: transitionProjectStatus_def)

text \<open>A draft project asked to become a draft.\<close>

theorem C7_draft_to_draft_witness:
  "transitionProjectStatus (run_env 1000 True True) (request_to ''draft'')
     (world_with (project_in ''draft'' [''project-design-document''])) =
   (Response 400 (Message ''Cannot transition from draft to draft''),
    world_with (project_in ''draft'' [''project-design-document'']))"
proof -
  let ?p = "project_in ''draft'' [''project-design-document'']"
  have cur: "workflowStates (status ?p) =
      Some \<lparr>name = ''Draft'', allowedTransitions = [''in-progress''], requiredDocuments = []\<rparr>"
    by (simp add: project_in_def workflowStates_lookup)
  have same: "body_newStatus (request_to ''draft'') = status ?p"
    by (simp add: request_to_def project_in_def)
  show ?thesis
    using C7_no_op_transition_rejected [OF stored_world_with cur same]
    by (simp add: project_in_def)
qed

section \<open>History and documents\<close>

text \<open>
  C8. The history is append-only: after any call of the handler, successful or not, the
  earlier history of every stored project is a prefix of its history. The time stamps of
  the history stay non-decreasing provided the clock read by the call is not behind the
  time stamp of the last existing record; the handler itself compares no time stamps.
\<close>

theorem C8_history_append_only:
  assumes "stored w k = Some p"
  shows "\<exists>p'. stored (snd (transitionProjectStatus e req w)) k = Some p'
     \<and> prefix (statusHistory p) (statusHistory p')
     \<and> (sorted (map timestamp (statusHistory p))
        \<and> (statusHistory p \<noteq> [] \<longrightarrow> timestamp (last (statusHistory p)) \<le> now e)
        \<longrightarrow> sorted (map timestamp (statusHistory p')))"
proof -
  have pre: "prefix (statusHistory p) (statusHistory (update_status e req p))"
    by (simp add: update_status_def)
  have mono: "sorted (map timestamp (statusHistory (update_status e req p)))"
    if "sorted (map timestamp (statusHistory p))"
      and "statusHistory p \<noteq> [] \<longrightarrow> timestamp (last (statusHistory p)) \<le> now e"
  proof -
    have "sorted (map timestamp (statusHistory p) @ [now e])"
      using that by (intro sorted_snoc_last) (simp_all add: last_map)
    then show ?thesis by (simp add: update_status_def status_record_def)
  qed
  from stored_step [OF assms, of e req] show ?thesis
  proof
    assume "stored (snd (transitionProjectStatus e req w)) k = Some p"
    then show ?thesis by auto
  next
    assume "stored (snd (transitionProjectStatus e req w)) k = Some (update_status e req p)"
    with pre mono show ?thesis by auto
  qed
qed

text \<open>Scenario B with the clock ahead of the last record.\<close>

theorem C8_witness:
  "\<exists>p'. stored (snd (transitionProjectStatus (run_env 1000 True True)
                (request_to ''in-progress'')
                (world_with (project_in ''draft'' [''project-design-document'']))))
              ''p1'' = Some p'
     \<and> prefix (statusHistory (project_in ''draft'' [''project-design-document'']))
          (statusHistory p')
     \<and> sorted (map timestamp (statusHistory p'))"
proof -
  let ?p = "project_in ''draft'' [''project-design-document'']"
  have h: "sorted (map timestamp (statusHistory ?p))
        \<and> (statusHistory ?p \<noteq> [] \<longrightarrow> timestamp (last (statusHistory ?p)) \<le> now (run_env 1000 True True))"
    by (simp add: project_in_def run_env_def)
  from C8_history_append_only [of "world_with ?p" "''p1''" ?p "run_env 1000 True True"
      "request_to ''in-progress''", OF sample_lookups(1)] h
  show ?thesis by blast
qed

text \<open>
  Scenario B with the clock at 100, behind the existing record's time stamp 500: the call
  succeeds and the stored history is no longer ordered by time.
\<close>

theorem C8_clock_behind_counterexample:
  "map timestamp (statusHistory (project_in ''draft'' [''project-design-document''])) = [500]
   \<and> fst (transitionProjectStatus (run_env 100 True True) (request_to ''in-progress'')
         (world_with (project_in ''draft'' [''project-design-document'']))) =
     Response 200 (StatusResult ''in-progress''
       [\<lparr>entry_status = ''draft'', timestamp = 500, updatedBy = ''user-0'', comment = ''created''\<rparr>,
        \<lparr>entry_status = ''in-progress'', timestamp = 100, updatedBy = ''user-7'', comment = ''ok''\<rparr>])
   \<and> map timestamp (stored_history (snd (transitionProjectStatus (run_env 100 True True)
         (request_to ''in-progress'')
         (world_with (project_in ''draft'' [''project-design-document''])))) ''p1'') = [500, 100]
   \<and> \<not> sorted (map timestamp (stored_history (snd (transitionProjectStatus (run_env 100 True True)
         (request_to ''in-progress'')
         (world_with (project_in ''draft'' [''project-design-document''])))) ''p1''))"
proof -
  have none: "collect_missing (documents (project_in ''draft'' [''project-design-document'']))
     (requiredDocuments \<lparr>name = ''In Progress'', allowedTransitions = [''submitted'', ''draft''],
           requiredDocuments = [''project-design-document'']\<rparr>) [] = []"
    by (rule covered_collect) (rule draft_to_in_progress_passes(5))
  note body = body_apply [OF draft_to_in_progress_passes(1-4) none]
  show ?thesis
    by (simp add: transitionProjectStatus_def body run_env_def stored_history_def
        update_status_def status_record_def)
      (simp add: request_to_def project_in_def)
qed

text \<open>
  C9. The handler never changes a project's documents: whatever the input and the outcome,
  every stored project is still stored after the call, and after any sequence of calls,
  with the same documents. The reachability and prerequisite checks only read. A call that
  ends at either of them (a 400 answer) leaves the whole world as it was. The body of the
  handler is its checks followed by its apply step; the checks, whether they pass or not,
  return the world they were given, and so does any number of runs of them. In every call
  a stored project is afterwards either what it was or, when the checks passed for it and
  the save resolved, what the apply step made of it.
\<close>

theorem C9_documents_never_mutated:
  "(\<forall>k p. stored w k = Some p \<longrightarrow>
      (\<exists>p'. stored (snd (transitionProjectStatus e req w)) k = Some p'
           \<and> documents p' = documents p))
   \<and> (\<forall>b. fst (transitionProjectStatus e req w) = Response 400 b \<longrightarrow>
        snd (transitionProjectStatus e req w) = w)
   \<and> (\<forall>calls k p. stored w k = Some p \<longrightarrow>
      (\<exists>p'. stored (transition_calls calls w) k = Some p' \<and> documents p' = documents p))
   \<and> transition_body e req w =
       (case transition_checks req w of
          (Rejected r, w') \<Rightarrow> (r, w')
        | (Passed project currentState targetState, w') \<Rightarrow>
            transition_apply e req project currentState targetState w')
   \<and> snd (transition_checks req w) = w
   \<and> (\<forall>reqs. repeat_checks reqs w = w)
   \<and> (\<forall>k p. stored w k = Some p \<longrightarrow>
        stored (snd (transitionProjectStatus e req w)) k = Some p
        \<or> (\<exists>cur tgt. transition_checks req w = (Passed p cur tgt, w)
             \<and> save_resolves e \<and> k = params_projectId req
             \<and> stored (snd (transitionProjectStatus e req w)) k = Some (update_status e req p)))"
proof (intro conjI allI impI)
  fix k p
  assume "stored w k = Some p"
  then show "\<exists>p'. stored (snd (transitionProjectStatus e req w)) k = Some p'
           \<and> documents p' = documents p"
    by (rule documents_step)
next
  fix b
  assume "fst (transitionProjectStatus e req w) = Response 400 b"
  then show "snd (transitionProjectStatus e req w) = w"
    by (rule rejected_unchanged)
next
  fix calls k p
  assume "stored w k = Some p"
  then show "\<exists>p'. stored (transition_calls calls w) k = Some p' \<and> documents p' = documents p"
    by (rule documents_calls)
next
  show "transition_body e req w =
       (case transition_checks req w of
          (Rejected r, w') \<Rightarrow> (r, w')
        | (Passed project currentState targetState, w') \<Rightarrow>
            transition_apply e req project currentState targetState w')"
    by (rule body_checks_then_apply)
next
  show "snd (transition_checks req w) = w"
    by (rule checks_unchanged)
next
  fix reqs
  show "repeat_checks reqs w = w"
    by (rule repeat_checks_unchanged)
next
  fix k p
  assume "stored w k = Some p"
  then show "stored (snd (transitionProjectStatus e req w)) k = Some p
        \<or> (\<exists>cur tgt. transition_checks req w = (Passed p cur tgt, w)
             \<and> save_resolves e \<and> k = params_projectId req
             \<and> stored (snd (transitionProjectStatus e req w)) k = Some (update_status e req p))"
    by (rule stored_step_cases)
qed

text \<open>
  The documents after the successful run of scenario B and after three calls in a row, the
  world after the rejected request of scenario D, the passing checks of scenario B and
  three runs of the checks, and the project stored by scenario B.
\<close>

theorem C9_witness:
  "(\<exists>p'. stored (snd (transitionProjectStatus (run_env 1000 True True)
                (request_to ''in-progress'')
                (world_with (project_in ''draft'' [''project-design-document'']))))
              ''p1'' = Some p'
        \<and> map documentType (documents p') = [''project-design-document''])
   \<and> snd (transitionProjectStatus (run_env 1000 True True) (request_to ''monitoring'')
          (world_with (project_in ''issued'' [''issuance-confirmation''])))
     = world_with (project_in ''issued'' [''issuance-confirmation''])
   \<and> (\<exists>p'. stored (transition_calls
                [(run_env 1000 True True, request_to ''in-progress''),
                 (run_env 2000 True True, request_to ''draft''),
                 (run_env 3000 True True, request_to ''submitted'')]
                (world_with (project_in ''draft'' [''project-design-document''])))
              ''p1'' = Some p'
        \<and> map documentType (documents p') = [''project-design-document''])
   \<and> transition_checks (request_to ''in-progress'')
        (world_with (project_in ''draft'' [''project-design-document''])) =
       (Passed (project_in ''draft'' [''project-design-document''])
          \<lparr>name = ''Draft'', allowedTransitions = [''in-progress''], requiredDocuments = []\<rparr>
          \<lparr>name = ''In Progress'', allowedTransitions = [''submitted'', ''draft''],
            requiredDocuments = [''project-design-document'']\<rparr>,
        world_with (project_in ''draft'' [''project-design-document'']))
   \<and> repeat_checks [request_to ''in-progress'', request_to ''verified'', request_to ''in-progress'']
        (world_with (project_in ''draft'' [''project-design-document''])) =
       world_with (project_in ''draft'' [''project-design-document''])
   \<and> stored (snd (transitionProjectStatus (run_env 1000 True True)
                (request_to ''in-progress'')
                (world_with (project_in ''draft'' [''project-design-document'']))))
              ''p1'' =
       Some (update_status (run_env 1000 True True) (request_to ''in-progress'')
               (project_in ''draft'' [''project-design-document'']))"
proof -
  let ?e = "run_env 1000 True True"
  let ?p = "project_in ''draft'' [''project-design-document'']"
  let ?q = "project_in ''issued'' [''issuance-confirmation'']"
  note C9p = C9_documents_never_mutated [of "world_with ?p" ?e "request_to ''in-progress''"]
  note C9q = C9_documents_never_mutated [of "world_with ?q" ?e "request_to ''monitoring''"]
  from C9p [THEN conjunct1, rule_format, OF sample_lookups(1)]
  obtain p' where "stored (snd (transitionProjectStatus ?e (request_to ''in-progress'')
        (world_with ?p))) ''p1'' = Some p'" and "documents p' = documents ?p"
    by blast
  then have first: "\<exists>p'. stored (snd (transitionProjectStatus ?e (request_to ''in-progress'')
        (world_with ?p))) ''p1'' = Some p'
        \<and> map documentType (documents p') = [''project-design-document'']"
    by (simp add: sample_lookups)
  have gap: "collect_missing (documents ?q) [''monitoring-report''] [] \<noteq> []"
    by (simp add: project_in_def)
  have rej: "fst (transitionProjectStatus ?e (request_to ''monitoring'') (world_with ?q)) =
      Response 400 (MissingDocuments ''Missing required documents for this transition''
        (collect_missing (documents ?q) [''monitoring-report''] []))"
    using body_missing [of "world_with ?q" "request_to ''monitoring''" ?q _ _ ?e] gap
    by (simp add: transitionProjectStatus_def sample_lookups workflowStates_lookup)
  note second = C9q [THEN conjunct2, THEN conjunct1, rule_format, OF rej]
  from C9p [THEN conjunct2, THEN conjunct2, THEN conjunct1, rule_format, OF sample_lookups(1)]
  obtain p'' where "stored (transition_calls
                [(run_env 1000 True True, request_to ''in-progress''),
                 (run_env 2000 True True, request_to ''draft''),
                 (run_env 3000 True True, request_to ''submitted'')]
                (world_with ?p)) ''p1'' = Some p''" and "documents p'' = documents ?p"
    by blast
  then have third: "\<exists>p'. stored (transition_calls
                [(run_env 1000 True True, request_to ''in-progress''),
                 (run_env 2000 True True, request_to ''draft''),
                 (run_env 3000 True True, request_to ''submitted'')]
                (world_with ?p)) ''p1'' = Some p'
        \<and> map documentType (documents p') = [''project-design-document'']"
    by (simp add: sample_lookups)
  note unchanged = C9p [THEN conjunct2, THEN conjunct2, THEN conjunct2, THEN conjunct2,
      THEN conjunct1]
  have fourth: "transition_checks (request_to ''in-progress'') (world_with ?p) =
       (Passed ?p
          \<lparr>name = ''Draft'', allowedTransitions = [''in-progress''], requiredDocuments = []\<rparr>
          \<lparr>name = ''In Progress'', allowedTransitions = [''submitted'', ''draft''],
            requiredDocuments = [''project-design-document'']\<rparr>,
        world_with ?p)"
    using unchanged draft_to_in_progress_checks by simp
  note fifth = C9p [THEN conjunct2, THEN conjunct2, THEN conjunct2, THEN conjunct2,
      THEN conjunct2, THEN conjunct1, rule_format,
      of "[request_to ''in-progress'', request_to ''verified'', request_to ''in-progress'']"]
  from C9p [THEN conjunct2, THEN conjunct2, THEN conjunct2, THEN conjunct2,
      THEN conjunct2, THEN conjunct2, rule_format, OF sample_lookups(1)]
  have "stored (snd (transitionProjectStatus ?e (request_to ''in-progress'') (world_with ?p)))
          ''p1'' = Some ?p
        \<or> stored (snd (transitionProjectStatus ?e (request_to ''in-progress'') (world_with ?p)))
          ''p1'' = Some (update_status ?e (request_to ''in-progress'') ?p)"
    by blast
  moreover have "stored (snd (transitionProjectStatus ?e (request_to ''in-progress'')
      (world_with ?p))) ''p1'' \<noteq> Some ?p"
  proof -
    have none: "collect_missing (documents ?p)
     (requiredDocuments \<lparr>name = ''In Progress'', allowedTransitions = [''submitted'', ''draft''],
           requiredDocuments = [''project-design-document'']\<rparr>) [] = []"
      by (rule covered_collect) (rule draft_to_in_progress_passes(5))
    note body = body_apply [OF draft_to_in_progress_passes(1-4) none]
    show ?thesis
      by (simp add: transitionProjectStatus_def body run_env_def sample_lookups update_status_def)
        (simp add: project_in_def request_to_def)
  qed
  ultimately have sixth: "stored (snd (transitionProjectStatus ?e (request_to ''in-progress'')
      (world_with ?p))) ''p1'' = Some (update_status ?e (request_to ''in-progress'') ?p)"
    by blast
  from first second third fourth fifth sixth show ?thesis by blast
qed

section \<open>Targets outside the state set\<close>

text \<open>
  C10. For a stored project in a state of the table and a requested target that is not one
  of the ten states, the body of the handler returns at the reachability check (it throws
  nothing, so no field of a missing table entry is read), the answer is the
  invalid-transition error and the world is unchanged. The lookup of the target entry
  comes after that check only, and every target that passes the check has an entry.
\<close>

theorem C10_unknown_target_rejected:
  assumes "stored w (params_projectId req) = Some p"
    and "workflowStates (status p) = Some cur"
    and "body_newStatus req \<notin> set state_set"
  shows "transition_body e req w =
     (Inr (Response 400 (Message
        (''Cannot transition from '' @ status p @ '' to '' @ body_newStatus req))), w)
   \<and> transitionProjectStatus e req w =
     (Response 400 (Message
        (''Cannot transition from '' @ status p @ '' to '' @ body_newStatus req)), w)
   \<and> (\<forall>t. t \<in> set (allowedTransitions cur) \<longrightarrow> workflowStates t \<noteq> None)"
proof -
  have unreachable: "body_newStatus req \<notin> set (allowedTransitions cur)"
    using transitions_closed [OF assms(2)] assms(3) by blast
  have closed: "workflowStates t \<noteq> None" if "t \<in> set (allowedTransitions cur)" for t
    using state_has_entry [OF transitions_closed [OF assms(2) that]] by auto
  show ?thesis
    using body_unreachable [OF assms(1,2) unreachable, of e] closed
    by (simp add: transitionProjectStatus_def)
qed

text \<open>A target outside the state set.\<close>

theorem C10_archived_witness:
  "transitionProjectStatus (run_env 1000 True True) (request_to ''archived'')
     (world_with (project_in ''draft'' [''project-design-document''])) =
   (Response 400 (Message ''Cannot transition from draft to archived''),
    world_with (project_in ''draft'' [''project-design-document'']))"
proof -
  let ?p = "project_in ''draft'' [''project-design-document'']"
  have cur: "workflowStates (status ?p) =
      Some \<lparr>name = ''Draft'', allowedTransitions = [''in-progress''], requiredDocuments = []\<rparr>"
    by (simp add: project_in_def workflowStates_lookup)
  have unknown: "body_newStatus (request_to ''archived'') \<notin> set state_set"
    by (simp add: request_to_def state_set_def)
  show ?thesis
    using C10_unknown_target_rejected [OF stored_world_with cur unknown]
    by (simp add: project_in_def request_to_def)
qed

end
